theory Spec2Isabelle
  imports
    Main
    "HOL-Library.Word"
    "HOL-Library.Char_ord"
    "HOL-Library.List_Lexorder"
    "HOL-Library.Option_ord"
begin

section \<open>Smart Attendance: the request handlers of app.py\<close>

text \<open>
  The Flask application app.py has three handlers with logic of their own:
  \<^verbatim>\<open>mark_attendance\<close>, \<^verbatim>\<open>get_recent_attendance\<close> and \<^verbatim>\<open>serve_image\<close>.
  They are embedded as functions over an explicit world (the rows of the
  \<^verbatim>\<open>attendance\<close> table and the regular files on disk). Everything the handlers call
  but the repository does not define is a field of an environment record: base64, OpenCV,
  face_recognition and the optional module live_detection. What the operating system
  supplies anew at every request (the clock and the random UUIDs) is a record of its own.
  An exception is its message, the value of \<^verbatim>\<open>str(e)\<close>; a call that may raise returns
  a sum with the message on the left.
\<close>

subsection \<open>Python values\<close>

text \<open>
  The values \<^verbatim>\<open>request.get_json()\<close> can return. JSON numbers with a fraction are left
  out; integers are unbounded, as in Python. A dict is the list of its items, its keys
  distinct.
\<close>

datatype pyval =
    PNone
  | PBool bool
  | PInt int
  | PStr string
  | PList "pyval list"
  | PDict "(string \<times> pyval) list"

type_synonym exn = string
type_synonym bytes = "8 word list"

text \<open>Truth value testing, as \<^verbatim>\<open>not x\<close> applies it.\<close>

fun truthy :: "pyval \<Rightarrow> bool" where
  "truthy PNone = False"
| "truthy (PBool b) = b"
| "truthy (PInt i) = (i \<noteq> 0)"
| "truthy (PStr s) = (s \<noteq> [])"
| "truthy (PList xs) = (xs \<noteq> [])"
| "truthy (PDict kvs) = (kvs \<noteq> [])"

fun type_name :: "pyval \<Rightarrow> string" where
  "type_name PNone = ''NoneType''"
| "type_name (PBool b) = ''bool''"
| "type_name (PInt i) = ''int''"
| "type_name (PStr s) = ''str''"
| "type_name (PList xs) = ''list''"
| "type_name (PDict kvs) = ''dict''"

text \<open>\<^verbatim>\<open>d.get(key, default)\<close>.\<close>

definition dict_get :: "(string \<times> pyval) list \<Rightarrow> string \<Rightarrow> pyval \<Rightarrow> pyval" where
  "dict_get d k dflt = (case map_of d k of None \<Rightarrow> dflt | Some v \<Rightarrow> v)"

subsection \<open>Collaborators and ambient inputs\<close>

text \<open>
  The libraries the handlers call. \<^verbatim>\<open>live_detection\<close> is \<open>None\<close> when importing
  \<^verbatim>\<open>is_live_bytes\<close> from that module raises ImportError at startup.
\<close>

type_synonym box = "int \<times> int \<times> int \<times> int"

record 'img env =
  b64decode :: "string \<Rightarrow> exn + bytes"
  imdecode :: "bytes \<Rightarrow> exn + 'img option"
  cvtColor :: "'img \<Rightarrow> exn + 'img"
  face_locations :: "'img \<Rightarrow> exn + box list"
  live_detection :: "(bytes \<Rightarrow> exn + bool) option"

text \<open>
  What one request reads from the clock and the random generator:
  \<^verbatim>\<open>datetime.utcnow().isoformat()\<close> (line 68), \<^verbatim>\<open>date.today().isoformat()\<close> in
  the handler (line 87) and again inside \<^verbatim>\<open>already_marked_today\<close> (line 54), and the
  two \<^verbatim>\<open>uuid.uuid4()\<close> values (lines 94 and 102), each 128 bits.
\<close>

record ambient =
  utcnow :: string
  today_handler :: string
  today_check :: string
  uuid_file :: "128 word"
  uuid_row :: "128 word"

subsection \<open>The store\<close>

text \<open>
  A row of \<^verbatim>\<open>attendance(id, name, timestamp, date, image_path)\<close>. Every column has
  TEXT affinity; the handler binds strings to all of them but \<^verbatim>\<open>timestamp\<close>, which
  takes what the client sent and so may be NULL.
\<close>

record row =
  id_col :: string
  name_col :: string
  timestamp_col :: "string option"
  date_col :: string
  image_path_col :: string

text \<open>
  The world: the table in insertion order, the regular files by path (relative to the
  working directory, which is taken to be the application's root), and the faults of
  the outside: \<open>db_fault\<close> is the message sqlite3 raises when the database cannot be
  opened or queried, \<open>fs_fault\<close> the message of the OSError when a file cannot be
  opened for writing.
\<close>

record world =
  attendance :: "row list"
  files :: "string \<rightharpoonup> bytes"
  db_fault :: "exn option"
  fs_fault :: "exn option"

definition DB_PATH :: string where
  "DB_PATH = ''attendance.db''"

definition IMAGE_DIR :: string where
  "IMAGE_DIR = ''attendance_images''"

subsection \<open>Library calls with a fixed meaning\<close>

text \<open>\<^verbatim>\<open>uuid4().hex\<close>: the 128 bits as 32 lowercase hexadecimal digits.\<close>

definition hex_digit :: "nat \<Rightarrow> char" where
  "hex_digit d = ''0123456789abcdef'' ! (d mod 16)"

fun hex_digits :: "nat \<Rightarrow> nat \<Rightarrow> string" where
  "hex_digits 0 n = []"
| "hex_digits (Suc k) n = hex_digits k (n div 16) @ [hex_digit n]"

definition uuid_hex :: "128 word \<Rightarrow> string" where
  "uuid_hex u = hex_digits 32 (unat u)"

text \<open>\<^verbatim>\<open>os.path.join\<close> of two parts, on POSIX.\<close>

definition path_join :: "string \<Rightarrow> string \<Rightarrow> string" where
  "path_join a b =
     (if b \<noteq> [] \<and> hd b = CHR ''/'' then b
      else if a = [] \<or> last a = CHR ''/'' then a @ b
      else a @ ''/'' @ b)"

text \<open>\<^verbatim>\<open>base64.b64decode\<close>: a str goes to the decoder, any other value is a TypeError.\<close>

definition b64decode_py :: "'img env \<Rightarrow> pyval \<Rightarrow> exn + bytes" where
  "b64decode_py env v =
     (case v of
        PStr s \<Rightarrow> b64decode env s
      | _ \<Rightarrow> Inl (''argument should be a bytes-like object or ASCII string, not '' @ type_name v))"

text \<open>Decimal digits of an integer, as SQLite writes one into a TEXT column.\<close>

fun nat_decimal :: "nat \<Rightarrow> string" where
  "nat_decimal n =
     (if n < 10 then [''0123456789'' ! n]
      else nat_decimal (n div 10) @ [''0123456789'' ! (n mod 10)])"

definition int_decimal :: "int \<Rightarrow> string" where
  "int_decimal i = (if i < 0 then ''-'' @ nat_decimal (nat (- i)) else nat_decimal (nat i))"

text \<open>
  Binding a Python value to a parameter of a statement, for a column of TEXT affinity:
  None is NULL, a str is itself, an int (and a bool, which is an int) that fits 64 bits
  is stored as its decimal text; a larger int, a list or a dict raises.
\<close>

definition sqlite_bind_text :: "nat \<Rightarrow> pyval \<Rightarrow> exn + string option" where
  "sqlite_bind_text pos v =
     (case v of
        PNone \<Rightarrow> Inr None
      | PStr s \<Rightarrow> Inr (Some s)
      | PBool b \<Rightarrow> Inr (Some (if b then ''1'' else ''0''))
      | PInt i \<Rightarrow>
          (if - (2 ^ 63) \<le> i \<and> i < 2 ^ 63 then Inr (Some (int_decimal i))
           else Inl ''Python int too large to convert to SQLite INTEGER'')
      | _ \<Rightarrow> Inl (''Error binding parameter '' @ nat_decimal pos @ '': type '' @ type_name v
                  @ '' is not supported''))"

subsection \<open>Helpers of app.py\<close>

text \<open>
  The fallback of lines 13 to 15, and the name \<^verbatim>\<open>is_live_bytes\<close> as the module binds
  it: the imported function, or the fallback after ImportError.
\<close>

definition is_live_bytes_fallback :: "bytes \<Rightarrow> exn + bool" where
  "is_live_bytes_fallback image_bytes = Inr True"

definition is_live_bytes :: "'img env \<Rightarrow> bytes \<Rightarrow> exn + bool" where
  "is_live_bytes env =
     (case live_detection env of
        Some f \<Rightarrow> f
      | None \<Rightarrow> is_live_bytes_fallback)"

text \<open>\<^verbatim>\<open>has_face\<close>, lines 41 to 49. \<^verbatim>\<open>np.frombuffer\<close> only views the bytes.\<close>

definition has_face :: "'img env \<Rightarrow> bytes \<Rightarrow> exn + bool" where
  "has_face env image_bytes =
     (case imdecode env image_bytes of
        Inl e \<Rightarrow> Inl e
      | Inr None \<Rightarrow> Inr False
      | Inr (Some img) \<Rightarrow>
          (case cvtColor env img of
             Inl e \<Rightarrow> Inl e
           | Inr rgb \<Rightarrow>
               (case face_locations env rgb of
                  Inl e \<Rightarrow> Inl e
                | Inr faces \<Rightarrow> Inr (length faces > 0))))"

text \<open>\<^verbatim>\<open>already_marked_today\<close>, lines 52 to 60.\<close>

definition already_marked_today :: "ambient \<Rightarrow> world \<Rightarrow> string \<Rightarrow> exn + bool" where
  "already_marked_today amb w name =
     (let today = today_check amb in
      case db_fault w of
        Some e \<Rightarrow> Inl e
      | None \<Rightarrow>
          (let count = length (filter (\<lambda>r. name_col r = name \<and> date_col r = today) (attendance w))
           in Inr (count > 0)))"

subsection \<open>Effects on the store\<close>

text \<open>\<^verbatim>\<open>with open(image_path, "wb") as f: f.write(image_bytes)\<close>.\<close>

definition write_file :: "world \<Rightarrow> string \<Rightarrow> bytes \<Rightarrow> exn + world" where
  "write_file w path content =
     (case fs_fault w of
        Some e \<Rightarrow> Inl e
      | None \<Rightarrow> Inr (w\<lparr>files := (files w)(path \<mapsto> content)\<rparr>))"

text \<open>
  The INSERT of lines 99 to 104. The timestamp is parameter 2 (counted from 0) of the
  statement; \<^verbatim>\<open>id\<close> is the primary key, so a second row with the same id is refused.
\<close>

definition insert_attendance ::
  "world \<Rightarrow> string \<Rightarrow> string \<Rightarrow> pyval \<Rightarrow> string \<Rightarrow> string \<Rightarrow> exn + world" where
  "insert_attendance w rid name timestamp today image_path =
     (case db_fault w of
        Some e \<Rightarrow> Inl e
      | None \<Rightarrow>
          (case sqlite_bind_text 2 timestamp of
             Inl e \<Rightarrow> Inl e
           | Inr ts \<Rightarrow>
               if rid \<in> set (map id_col (attendance w))
               then Inl ''UNIQUE constraint failed: attendance.id''
               else Inr (w\<lparr>attendance := attendance w @
                           [\<lparr>id_col = rid, name_col = name, timestamp_col = ts,
                             date_col = today, image_path_col = image_path\<rparr>]\<rparr>)))"

subsection \<open>POST /mark\_attendance\<close>

type_synonym response = "nat \<times> pyval"

definition failure :: "nat \<Rightarrow> string \<Rightarrow> response" where
  "failure code msg = (code, PDict [(''ok'', PBool False), (''error'', PStr msg)])"

text \<open>
  The body of the \<^verbatim>\<open>try\<close>, lines 74 to 111: what it returns or raises, and the world
  at that moment.
\<close>

definition mark_attendance_try ::
  "'img env \<Rightarrow> ambient \<Rightarrow> world \<Rightarrow> pyval \<Rightarrow> pyval \<Rightarrow> (exn + response) \<times> world" where
  "mark_attendance_try env amb w image_base64 timestamp =
     (case b64decode_py env image_base64 of
        Inl e \<Rightarrow> (Inl e, w)
      | Inr image_bytes \<Rightarrow>
     (case has_face env image_bytes of
        Inl e \<Rightarrow> (Inl e, w)
      | Inr False \<Rightarrow> (Inr (failure 403 ''No face detected''), w)
      | Inr True \<Rightarrow>
     (case is_live_bytes env image_bytes of
        Inl e \<Rightarrow> (Inl e, w)
      | Inr False \<Rightarrow> (Inr (failure 403 ''Spoof detected''), w)
      | Inr True \<Rightarrow>
     (let name = ''Unknown Person'';
          today = today_handler amb
      in
      case already_marked_today amb w name of
        Inl e \<Rightarrow> (Inl e, w)
      | Inr True \<Rightarrow> (Inr (failure 409 ''Attendance already marked for today''), w)
      | Inr False \<Rightarrow>
     (let filename = uuid_hex (uuid_file amb) @ ''.jpg'';
          image_path = path_join IMAGE_DIR filename
      in
      case write_file w image_path image_bytes of
        Inl e \<Rightarrow> (Inl e, w)
      | Inr w1 \<Rightarrow>
     (case insert_attendance w1 (uuid_hex (uuid_row amb)) name timestamp today image_path of
        Inl e \<Rightarrow> (Inl e, w1)
      | Inr w2 \<Rightarrow>
          (Inr (200, PDict [(''ok'', PBool True),
                            (''timestamp'', timestamp),
                            (''image_path'', PStr (''/attendance_images/'' @ filename)),
                            (''name'', PStr name)]), w2)))))))"

text \<open>
  The handler, lines 65 to 114. \<open>data\<close> is what \<^verbatim>\<open>request.get_json()\<close> returned. Only a
  dict has \<^verbatim>\<open>get\<close>: for any other value line 67 raises AttributeError outside the
  \<^verbatim>\<open>try\<close>, and the handler returns nothing (\<open>Inl\<close>).
\<close>

definition mark_attendance ::
  "'img env \<Rightarrow> ambient \<Rightarrow> world \<Rightarrow> pyval \<Rightarrow> exn + response \<times> world" where
  "mark_attendance env amb w data =
     (case data of
        PDict d \<Rightarrow>
          (let image_base64 = dict_get d ''image_base64'' PNone;
               timestamp = dict_get d ''timestamp'' (PStr (utcnow amb))
           in
           if \<not> truthy image_base64 then Inr (failure 400 ''No image received'', w)
           else
             (case mark_attendance_try env amb w image_base64 timestamp of
                (Inr resp, w') \<Rightarrow> Inr (resp, w')
              | (Inl e, w') \<Rightarrow> Inr (failure 500 e, w')))
      | _ \<Rightarrow> Inl (type_name data @ '' object has no attribute get''))"

subsection \<open>GET /get\_recent\_attendance\<close>

text \<open>
  \<^verbatim>\<open>SELECT name, timestamp, image_path FROM attendance ORDER BY timestamp DESC LIMIT 10\<close>.
  SQLite orders NULL before every text and compares texts byte by byte, which is the
  order of \<open>string option\<close>. Among equal timestamps SQLite promises no order; here the
  later row comes first.
\<close>

definition order_by_timestamp_desc :: "row list \<Rightarrow> row list" where
  "order_by_timestamp_desc rows = rev (sort_key timestamp_col rows)"

definition select_recent :: "world \<Rightarrow> exn + (string \<times> string option \<times> string) list" where
  "select_recent w =
     (case db_fault w of
        Some e \<Rightarrow> Inl e
      | None \<Rightarrow>
          Inr (map (\<lambda>r. (name_col r, timestamp_col r, image_path_col r))
                 (take 10 (order_by_timestamp_desc (attendance w)))))"

definition py_of_text :: "string option \<Rightarrow> pyval" where
  "py_of_text t = (case t of None \<Rightarrow> PNone | Some s \<Rightarrow> PStr s)"

definition recent_entry :: "string \<times> string option \<times> string \<Rightarrow> pyval" where
  "recent_entry r =
     (case r of (r0, r1, r2) \<Rightarrow>
        PDict [(''person_text'', PStr r0),
               (''timestamp'', py_of_text r1),
               (''image_path'', PStr (''/'' @ r2))])"

text \<open>The handler, lines 119 to 129: the response and the world it leaves.\<close>

definition get_recent_attendance :: "world \<Rightarrow> response \<times> world" where
  "get_recent_attendance w =
     (case select_recent w of
        Inr rows \<Rightarrow> ((200, PList (map recent_entry rows)), w)
      | Inl e \<Rightarrow> ((500, PDict [(''error'', PStr e)]), w))"

subsection \<open>GET /attendance\_images/<path:filename>\<close>

text \<open>\<^verbatim>\<open>str.split(sep)\<close> and \<^verbatim>\<open>sep.join(parts)\<close> for a separator of one character.\<close>

fun split_on :: "char \<Rightarrow> string \<Rightarrow> string list" where
  "split_on c [] = [[]]"
| "split_on c (x # xs) =
     (if x = c then [] # split_on c xs
      else (case split_on c xs of
              [] \<Rightarrow> [[x]]
            | y # ys \<Rightarrow> (x # y) # ys))"

fun join_with :: "char \<Rightarrow> string list \<Rightarrow> string" where
  "join_with c [] = []"
| "join_with c [p] = p"
| "join_with c (p # q # ps) = p @ [c] @ join_with c (q # ps)"

text \<open>
  \<^verbatim>\<open>posixpath.normpath\<close>: the loop over the components (each called \<open>part\<close> here), with \<open>new_comps\<close> as it
  grows and shrinks at its end, and the function around it.
\<close>

fun normpath_loop :: "bool \<Rightarrow> string list \<Rightarrow> string list \<Rightarrow> string list" where
  "normpath_loop initial_slashes [] new_comps = new_comps"
| "normpath_loop initial_slashes (part # comps) new_comps =
     (if part = [] \<or> part = ''.'' then normpath_loop initial_slashes comps new_comps
      else if part \<noteq> ''..'' \<or> (\<not> initial_slashes \<and> new_comps = [])
                \<or> (new_comps \<noteq> [] \<and> last new_comps = ''..'')
        then normpath_loop initial_slashes comps (new_comps @ [part])
      else if new_comps \<noteq> [] then normpath_loop initial_slashes comps (butlast new_comps)
      else normpath_loop initial_slashes comps new_comps)"

definition starts_with :: "string \<Rightarrow> string \<Rightarrow> bool" where
  "starts_with s p = (take (length p) s = p)"

definition normpath :: "string \<Rightarrow> string" where
  "normpath path =
     (if path = [] then ''.''
      else
        (let initial_slashes =
               (if \<not> starts_with path ''/'' then 0
                else if starts_with path ''//'' \<and> \<not> starts_with path ''///'' then 2
                else (1::nat));
             comps = normpath_loop (initial_slashes \<noteq> 0) (split_on CHR ''/'' path) [];
             joined = replicate initial_slashes CHR ''/'' @ join_with CHR ''/'' comps
         in if joined = [] then ''.'' else joined))"

text \<open>
  Modelled from the spec: \<^verbatim>\<open>send_from_directory\<close> is Flask's, not the repository's;
  section 4.3 of the specification requires that it fails with NotFound unless the
  filename resolves to an existing file within the store directory, and that the path
  segment is sanitised before it is joined. The definitions follow Werkzeug's
  \<^verbatim>\<open>safe_join\<close> on POSIX, which is how Flask meets that contract: the filename is
  normalised, refused when it is absolute or climbs out with a leading \<^verbatim>\<open>..\<close>, and
  joined to the directory; the result must be a regular file.
\<close>

definition safe_join :: "string \<Rightarrow> string \<Rightarrow> string option" where
  "safe_join directory filename =
     (let directory = (if directory = [] then ''.'' else directory);
          filename = (if filename \<noteq> [] then normpath filename else filename)
      in if starts_with filename ''/'' \<or> filename = ''..'' \<or> starts_with filename ''../''
         then None
         else Some (path_join directory filename))"

datatype file_response = NotFound | FileBody bytes

definition send_from_directory :: "world \<Rightarrow> string \<Rightarrow> string \<Rightarrow> file_response" where
  "send_from_directory w directory path =
     (case safe_join directory path of
        None \<Rightarrow> NotFound
      | Some path_str \<Rightarrow>
          (case files w path_str of
             None \<Rightarrow> NotFound
           | Some content \<Rightarrow> FileBody content))"

text \<open>The handler, lines 132 to 134.\<close>

definition serve_image :: "world \<Rightarrow> string \<Rightarrow> file_response" where
  "serve_image w filename = send_from_directory w IMAGE_DIR filename"

text \<open>
  The route of \<^verbatim>\<open>serve_image\<close>: the URL path after \<^verbatim>\<open>/attendance_images/\<close> is the
  filename; the \<^verbatim>\<open>path\<close> converter takes one or more characters, the first not a slash.
\<close>

definition get_attendance_images :: "world \<Rightarrow> string \<Rightarrow> file_response" where
  "get_attendance_images w url =
     (let prefix = ''/attendance_images/'';
          filename = drop (length prefix) url
      in if starts_with url prefix \<and> filename \<noteq> [] \<and> hd filename \<noteq> CHR ''/''
         then serve_image w filename
         else NotFound)"

subsection \<open>The effect of step 5\<close>

text \<open>
  The world after the file write of lines 94 to 97 and the insert of lines 99 to 104 have
  both gone through, for the bytes \<open>bs\<close> and the bound timestamp \<open>ts\<close>.
\<close>

definition saved_world :: "ambient \<Rightarrow> world \<Rightarrow> bytes \<Rightarrow> string option \<Rightarrow> world" where
  "saved_world amb w bs ts =
     w\<lparr>files := (files w)(path_join IMAGE_DIR (uuid_hex (uuid_file amb) @ ''.jpg'') \<mapsto> bs),
       attendance := attendance w @
          [\<lparr>id_col = uuid_hex (uuid_row amb), name_col = ''Unknown Person'', timestamp_col = ts,
            date_col = today_handler amb,
            image_path_col = path_join IMAGE_DIR (uuid_hex (uuid_file amb) @ ''.jpg'')\<rparr>]\<rparr>"

subsection \<open>A deployment to evaluate on\<close>

text \<open>
  One concrete environment, for evaluating the handlers. Its base64 decoder knows three
  payloads: \<^verbatim>\<open>/9j/\<close> is the three bytes FF D8 FF, \<^verbatim>\<open>AAAA\<close> three zero bytes and
  \<^verbatim>\<open>=\<close> no bytes at all, as in Python. Its image decoder does what OpenCV does: it
  asserts that the buffer is not empty (the binding raises \<^verbatim>\<open>cv2.error\<close>) and
  returns None for bytes no codec accepts; the first payload stands for a photo with one
  face. The module live_detection is missing, so the fallback is in place; \<open>spoof_env\<close>
  has a checker that rejects everything.
\<close>

definition example_env :: "nat env" where
  "example_env =
     \<lparr>b64decode = (\<lambda>s. if s = ''/9j/'' then Inr [255, 216, 255]
                       else if s = ''AAAA'' then Inr [0, 0, 0]
                       else if s = ''='' then Inr []
                       else Inl ''Incorrect padding''),
      imdecode = (\<lambda>buf. if buf = [] then Inl ''Assertion failed: !buf.empty() in function imdecode_''
                         else if buf = [255, 216, 255] then Inr (Some 1)
                         else Inr None),
      cvtColor = (\<lambda>img. Inr img),
      face_locations = (\<lambda>img. Inr (if img = 1 then [(0, 10, 10, 0)] else [])),
      live_detection = None\<rparr>"

definition example_ambient :: ambient where
  "example_ambient =
     \<lparr>utcnow = ''2024-01-01T09:59:59.123456'',
      today_handler = ''2024-01-01'',
      today_check = ''2024-01-01'',
      uuid_file = 0x0123456789abcdef0123456789abcdef,
      uuid_row = 0xfedcba9876543210fedcba9876543210\<rparr>"

definition empty_world :: world where
  "empty_world = \<lparr>attendance = [], files = Map.empty, db_fault = None, fs_fault = None\<rparr>"

definition spoof_env :: "nat env" where
  "spoof_env = example_env\<lparr>live_detection := Some (\<lambda>image_bytes. Inr False)\<rparr>"

definition example_request :: pyval where
  "example_request =
     PDict [(''image_base64'', PStr ''/9j/''), (''timestamp'', PStr ''2024-01-01T10:00:00'')]"

definition later_ambient :: ambient where
  "later_ambient =
     \<lparr>utcnow = ''2024-01-01T17:30:00.000001'',
      today_handler = ''2024-01-01'',
      today_check = ''2024-01-01'',
      uuid_file = 0x11111111111111111111111111111111,
      uuid_row = 0x22222222222222222222222222222222\<rparr>"

definition marked_world :: world where
  "marked_world =
     \<lparr>attendance =
        [\<lparr>id_col = uuid_hex (uuid_row example_ambient), name_col = ''Unknown Person'',
          timestamp_col = Some ''2024-01-01T10:00:00'', date_col = ''2024-01-01'',
          image_path_col = path_join IMAGE_DIR (uuid_hex (uuid_file example_ambient) @ ''.jpg'')\<rparr>],
      files = [path_join IMAGE_DIR (uuid_hex (uuid_file example_ambient) @ ''.jpg'')
                 \<mapsto> [255, 216, 255]],
      db_fault = None, fs_fault = None\<rparr>"

definition unbindable_request :: pyval where
  "unbindable_request = PDict [(''image_base64'', PStr ''/9j/''), (''timestamp'', PList [])]"

definition empty_request :: pyval where
  "empty_request = PDict [(''image_base64'', PStr ''='')]"

definition next_day_ambient :: ambient where
  "next_day_ambient =
     \<lparr>utcnow = ''2024-01-02T08:00:00.000002'',
      today_handler = ''2024-01-02'',
      today_check = ''2024-01-02'',
      uuid_file = 0x11111111111111111111111111111111,
      uuid_row = 0x22222222222222222222222222222222\<rparr>"

text \<open>
  A list of components as \<^verbatim>\<open>normpath\<close> builds it: some \<^verbatim>\<open>..\<close> first, then names
  that are neither empty nor \<^verbatim>\<open>.\<close> nor \<^verbatim>\<open>..\<close>.
\<close>

definition climbing :: "string list \<Rightarrow> bool" where
  "climbing comps \<longleftrightarrow>
     (\<exists>k names. comps = replicate k ''..'' @ names \<and>
        (\<forall>n \<in> set names. n \<noteq> [] \<and> n \<noteq> ''.'' \<and> n \<noteq> ''..''))"

definition leaky_world :: world where
  "leaky_world = marked_world\<lparr>files := (files marked_world)(''attendance.db'' \<mapsto> [83, 81, 76])\<rparr>"

text \<open>A table with a NULL timestamp between two dated rows.\<close>

definition week_world :: world where
  "week_world =
     \<lparr>attendance =
        [\<lparr>id_col = ''a1'', name_col = ''Unknown Person'',
          timestamp_col = Some ''2024-01-02T09:00:00'', date_col = ''2024-01-02'',
          image_path_col = ''attendance_images/a1.jpg''\<rparr>,
         \<lparr>id_col = ''a2'', name_col = ''Unknown Person'',
          timestamp_col = None, date_col = ''2024-01-03'',
          image_path_col = ''attendance_images/a2.jpg''\<rparr>,
         \<lparr>id_col = ''a3'', name_col = ''Unknown Person'',
          timestamp_col = Some ''2024-01-04T08:30:00'', date_col = ''2024-01-04'',
          image_path_col = ''attendance_images/a3.jpg''\<rparr>],
      files = Map.empty, db_fault = None, fs_fault = None\<rparr>"

section \<open>Properties\<close>

subsection \<open>The paths through the handler\<close>

lemma has_face_True:
  "imdecode env bs = Inr (Some img) \<Longrightarrow> cvtColor env img = Inr rgb \<Longrightarrow>
   face_locations env rgb = Inr faces \<Longrightarrow> faces \<noteq> [] \<Longrightarrow> has_face env bs = Inr True"
  by (simp add: has_face_def)

lemma has_face_False:
  "imdecode env bs = Inr None \<or>
   (imdecode env bs = Inr (Some img) \<and> cvtColor env img = Inr rgb \<and> face_locations env rgb = Inr [])
   \<Longrightarrow> has_face env bs = Inr False"
  by (auto simp add: has_face_def)

lemma mark_attendance_str:
  "map_of d ''image_base64'' = Some (PStr s) \<Longrightarrow> s \<noteq> [] \<Longrightarrow>
   mark_attendance env amb w (PDict d) =
     (case mark_attendance_try env amb w (PStr s) (dict_get d ''timestamp'' (PStr (utcnow amb))) of
        (Inr resp, w') \<Rightarrow> Inr (resp, w')
      | (Inl e, w') \<Rightarrow> Inr (failure 500 e, w'))"
  by (simp add: mark_attendance_def dict_get_def)

lemma try_no_face:
  "b64decode env s = Inr bs \<Longrightarrow> has_face env bs = Inr False \<Longrightarrow>
   mark_attendance_try env amb w (PStr s) t = (Inr (failure 403 ''No face detected''), w)"
  by (simp add: mark_attendance_try_def b64decode_py_def)

lemma try_face_raises:
  "b64decode env s = Inr bs \<Longrightarrow> has_face env bs = Inl e \<Longrightarrow>
   mark_attendance_try env amb w (PStr s) t = (Inl e, w)"
  by (simp add: mark_attendance_try_def b64decode_py_def)

lemma try_spoof:
  "b64decode env s = Inr bs \<Longrightarrow> has_face env bs = Inr True \<Longrightarrow> is_live_bytes env bs = Inr False \<Longrightarrow>
   mark_attendance_try env amb w (PStr s) t = (Inr (failure 403 ''Spoof detected''), w)"
  by (simp add: mark_attendance_try_def b64decode_py_def)

lemma already_marked_today_iff:
  "db_fault w = None \<Longrightarrow>
   already_marked_today amb w name =
     Inr (\<exists>r \<in> set (attendance w). name_col r = name \<and> date_col r = today_check amb)"
  by (auto simp add: already_marked_today_def Let_def filter_empty_conv)

lemma try_duplicate:
  "b64decode env s = Inr bs \<Longrightarrow> has_face env bs = Inr True \<Longrightarrow> is_live_bytes env bs = Inr True \<Longrightarrow>
   already_marked_today amb w ''Unknown Person'' = Inr True \<Longrightarrow>
   mark_attendance_try env amb w (PStr s) t =
     (Inr (failure 409 ''Attendance already marked for today''), w)"
  by (simp add: mark_attendance_try_def b64decode_py_def)

lemma try_save:
  "b64decode env s = Inr bs \<Longrightarrow> has_face env bs = Inr True \<Longrightarrow> is_live_bytes env bs = Inr True \<Longrightarrow>
   already_marked_today amb w ''Unknown Person'' = Inr False \<Longrightarrow>
   fs_fault w = None \<Longrightarrow> db_fault w = None \<Longrightarrow>
   sqlite_bind_text 2 t = Inr ts \<Longrightarrow>
   uuid_hex (uuid_row amb) \<notin> set (map id_col (attendance w)) \<Longrightarrow>
   mark_attendance_try env amb w (PStr s) t =
     (Inr (200, PDict [(''ok'', PBool True), (''timestamp'', t),
                       (''image_path'', PStr (''/attendance_images/'' @ uuid_hex (uuid_file amb) @ ''.jpg'')),
                       (''name'', PStr ''Unknown Person'')]),
      w\<lparr>files := (files w)(path_join IMAGE_DIR (uuid_hex (uuid_file amb) @ ''.jpg'') \<mapsto> bs),
        attendance := attendance w @
          [\<lparr>id_col = uuid_hex (uuid_row amb), name_col = ''Unknown Person'', timestamp_col = ts,
            date_col = today_handler amb,
            image_path_col = path_join IMAGE_DIR (uuid_hex (uuid_file amb) @ ''.jpg'')\<rparr>]\<rparr>)"
  by (simp add: mark_attendance_try_def b64decode_py_def Let_def write_file_def insert_attendance_def)

lemma try_world_cases:
  "mark_attendance_try env amb w image_base64 timestamp = (r, w') \<Longrightarrow>
   (\<forall>resp. r = Inr resp \<longrightarrow> fst resp \<noteq> 200 \<longrightarrow> w' = w)"
  unfolding mark_attendance_try_def failure_def
  by (auto simp: Let_def split: sum.splits bool.splits)

lemma try_200:
  assumes "mark_attendance_try env amb w v t = (Inr (200, body), w')"
  shows "\<exists>s bs ts. v = PStr s \<and> b64decode env s = Inr bs \<and> has_face env bs = Inr True \<and>
           is_live_bytes env bs = Inr True \<and>
           already_marked_today amb w ''Unknown Person'' = Inr False \<and>
           fs_fault w = None \<and> db_fault w = None \<and> sqlite_bind_text 2 t = Inr ts \<and>
           uuid_hex (uuid_row amb) \<notin> set (map id_col (attendance w)) \<and>
           body = PDict [(''ok'', PBool True), (''timestamp'', t),
                       (''image_path'', PStr (''/attendance_images/'' @ uuid_hex (uuid_file amb) @ ''.jpg'')),
                       (''name'', PStr ''Unknown Person'')] \<and>
           w' = saved_world amb w bs ts"
  using assms
  unfolding mark_attendance_try_def failure_def b64decode_py_def saved_world_def
            write_file_def insert_attendance_def
  by (auto simp: Let_def split: sum.splits bool.splits pyval.splits option.splits if_splits)

lemma try_world:
  assumes "mark_attendance_try env amb w v t = (r, w')"
  shows "attendance w' = attendance w \<and> db_fault w' = db_fault w \<and> fs_fault w' = fs_fault w \<and>
         (\<forall>p. files w p \<noteq> None \<longrightarrow> files w' p \<noteq> None) \<or>
         (\<exists>body. r = Inr (200, body))"
  using assms
  unfolding mark_attendance_try_def failure_def write_file_def insert_attendance_def
  by (auto simp: Let_def split: sum.splits bool.splits option.splits if_splits)

lemma mark_attendance_200:
  assumes "mark_attendance env amb w data = Inr ((200, body), w')"
  shows "\<exists>d s. data = PDict d \<and> map_of d ''image_base64'' = Some (PStr s) \<and> s \<noteq> [] \<and>
           mark_attendance_try env amb w (PStr s) (dict_get d ''timestamp'' (PStr (utcnow amb)))
             = (Inr (200, body), w')"
proof -
  obtain d where d: "data = PDict d"
    using assms by (cases data) (auto simp: mark_attendance_def)
  let ?v = "dict_get d ''image_base64'' PNone"
  let ?t = "dict_get d ''timestamp'' (PStr (utcnow amb))"
  have tr: "truthy ?v" and run: "mark_attendance_try env amb w ?v ?t = (Inr (200, body), w')"
    using assms d
    by (auto simp: mark_attendance_def Let_def failure_def split: if_splits prod.splits sum.splits)
  from try_200[OF run] obtain s where s: "?v = PStr s" by blast
  with tr have "s \<noteq> []" by simp
  moreover have "map_of d ''image_base64'' = Some (PStr s)"
    using s by (auto simp: dict_get_def split: option.splits)
  ultimately show ?thesis using d run s by auto
qed

lemma mark_attendance_early:
  assumes "mark_attendance env amb w data = Inr ((code, body), w')"
    and "code \<noteq> 200" and "code \<noteq> 500"
  shows "w' = w"
  using assms
  unfolding mark_attendance_def mark_attendance_try_def failure_def write_file_def insert_attendance_def
  by (auto simp: Let_def split: pyval.splits sum.splits bool.splits option.splits if_splits prod.splits)



lemma example_faces:
  "has_face example_env [255, 216, 255] = Inr True"
  "has_face spoof_env [255, 216, 255] = Inr True"
  "has_face example_env [0, 0, 0] = Inr False"
  by (simp_all add: has_face_def example_env_def spoof_env_def)

subsection \<open>Liveness\<close>

text \<open>
  Claim C9. When the module live_detection cannot be imported at startup, the fallback
  bound to \<^verbatim>\<open>is_live_bytes\<close> reports live for every input, and no submission, whatever
  its body and whatever the state of the store, is answered with 403 and the error
  "Spoof detected".
\<close>

theorem fallback_never_spoof:
  assumes "live_detection env = None"
  shows "is_live_bytes env image_bytes = Inr True \<and>
         (\<forall>resp w'. mark_attendance env amb w data = Inr (resp, w') \<longrightarrow>
            resp \<noteq> failure 403 ''Spoof detected'')"
proof -
  have live: "\<And>bs. is_live_bytes env bs = Inr True"
    using assms by (simp add: is_live_bytes_def is_live_bytes_fallback_def)
  have tr: "\<And>i t r w'. mark_attendance_try env amb w i t = (r, w') \<Longrightarrow>
               r \<noteq> Inr (failure 403 ''Spoof detected'')"
    unfolding mark_attendance_try_def failure_def
    by (auto simp: Let_def live split: sum.splits bool.splits)
  show ?thesis
    using live
    unfolding mark_attendance_def
    by (auto simp: Let_def failure_def split: pyval.splits sum.splits prod.splits if_splits
             dest!: tr[unfolded failure_def])
qed

theorem fallback_never_spoof_witness:
  "live_detection example_env = None \<and>
   is_live_bytes example_env [255, 216, 255] = Inr True \<and>
   mark_attendance example_env example_ambient marked_world example_request
     \<noteq> Inr (failure 403 ''Spoof detected'', marked_world)"
proof -
  have missing: "live_detection example_env = None"
    by (simp add: example_env_def)
  from fallback_never_spoof [OF missing, of "[255, 216, 255]" example_ambient marked_world
      example_request]
  show ?thesis
    using missing by blast
qed

text \<open>
  Claim C3. A submission whose image decodes, shows at least one face and is rejected by
  the liveness checker is answered with 403 and the error "Spoof detected"; the world
  returned is the world received, so no file is written and no row inserted.
\<close>

theorem spoof_forbidden:
  assumes "map_of d ''image_base64'' = Some (PStr s)" and "s \<noteq> []"
    and "b64decode env s = Inr image_bytes"
    and "imdecode env image_bytes = Inr (Some img)"
    and "cvtColor env img = Inr rgb"
    and "face_locations env rgb = Inr faces" and "faces \<noteq> []"
    and "is_live_bytes env image_bytes = Inr False"
  shows "mark_attendance env amb w (PDict d) = Inr (failure 403 ''Spoof detected'', w)"
  using assms
  by (simp add: mark_attendance_str try_spoof [where bs = image_bytes] has_face_True)

theorem spoof_forbidden_witness:
  "map_of [(''image_base64'', PStr ''/9j/''), (''timestamp'', PStr ''2024-01-01T10:00:00'')]
      ''image_base64'' = Some (PStr ''/9j/'') \<and>
   b64decode spoof_env ''/9j/'' = Inr [255, 216, 255] \<and>
   imdecode spoof_env [255, 216, 255] = Inr (Some 1) \<and>
   cvtColor spoof_env 1 = Inr 1 \<and>
   face_locations spoof_env 1 = Inr [(0, 10, 10, 0)] \<and>
   is_live_bytes spoof_env [255, 216, 255] = Inr False \<and>
   mark_attendance spoof_env example_ambient marked_world example_request =
     Inr (failure 403 ''Spoof detected'', marked_world)"
  using spoof_forbidden [of "[(''image_base64'', PStr ''/9j/''), (''timestamp'', PStr ''2024-01-01T10:00:00'')]"
      "''/9j/''" spoof_env "[255, 216, 255]" 1 1 "[(0, 10, 10, 0)]" example_ambient marked_world]
  by (simp add: spoof_env_def example_env_def is_live_bytes_def example_request_def)

subsection \<open>Accepted payloads\<close>

lemma mark_attendance_accepted:
  assumes "map_of d ''image_base64'' = Some (PStr s)" and "s \<noteq> []"
    and "b64decode env s = Inr image_bytes"
    and "has_face env image_bytes = Inr True"
    and "is_live_bytes env image_bytes = Inr True"
    and "db_fault w = None"
  shows "(\<exists>r \<in> set (attendance w). name_col r = ''Unknown Person'' \<and> date_col r = today_check amb)
           \<Longrightarrow> mark_attendance env amb w (PDict d)
                 = Inr (failure 409 ''Attendance already marked for today'', w)"
    and "\<not> (\<exists>r \<in> set (attendance w). name_col r = ''Unknown Person'' \<and> date_col r = today_check amb)
           \<Longrightarrow> fs_fault w = None
           \<Longrightarrow> sqlite_bind_text 2 (dict_get d ''timestamp'' (PStr (utcnow amb))) = Inr ts
           \<Longrightarrow> uuid_hex (uuid_row amb) \<notin> set (map id_col (attendance w))
           \<Longrightarrow> mark_attendance env amb w (PDict d)
                 = Inr ((200, PDict [(''ok'', PBool True),
                          (''timestamp'', dict_get d ''timestamp'' (PStr (utcnow amb))),
                          (''image_path'', PStr (''/attendance_images/'' @ uuid_hex (uuid_file amb) @ ''.jpg'')),
                          (''name'', PStr ''Unknown Person'')]),
                        saved_world amb w image_bytes ts)"
proof -
  assume dup: "\<exists>r \<in> set (attendance w). name_col r = ''Unknown Person'' \<and> date_col r = today_check amb"
  have "already_marked_today amb w ''Unknown Person'' = Inr True"
    using dup assms(6) by (simp add: already_marked_today_iff)
  then show "mark_attendance env amb w (PDict d)
                 = Inr (failure 409 ''Attendance already marked for today'', w)"
    using assms by (simp add: mark_attendance_str try_duplicate [where bs = image_bytes])
next
  assume nodup: "\<not> (\<exists>r \<in> set (attendance w). name_col r = ''Unknown Person'' \<and> date_col r = today_check amb)"
    and rest: "fs_fault w = None"
      "sqlite_bind_text 2 (dict_get d ''timestamp'' (PStr (utcnow amb))) = Inr ts"
      "uuid_hex (uuid_row amb) \<notin> set (map id_col (attendance w))"
  have "already_marked_today amb w ''Unknown Person'' = Inr False"
    using nodup assms(6) by (simp add: already_marked_today_iff)
  then show "mark_attendance env amb w (PDict d)
                 = Inr ((200, PDict [(''ok'', PBool True),
                          (''timestamp'', dict_get d ''timestamp'' (PStr (utcnow amb))),
                          (''image_path'', PStr (''/attendance_images/'' @ uuid_hex (uuid_file amb) @ ''.jpg'')),
                          (''name'', PStr ''Unknown Person'')]),
                        saved_world amb w image_bytes ts)"
    using assms rest
    by (simp add: mark_attendance_str try_save [where bs = image_bytes and ts = ts] saved_world_def)
qed


lemma example_timestamp:
  "dict_get [(''image_base64'', PStr ''/9j/''), (''timestamp'', PStr ''2024-01-01T10:00:00'')]
     ''timestamp'' dflt = PStr ''2024-01-01T10:00:00''"
  by (simp add: dict_get_def)

lemma example_first:
  "mark_attendance example_env example_ambient empty_world example_request =
     Inr ((200, PDict [(''ok'', PBool True),
                       (''timestamp'', PStr ''2024-01-01T10:00:00''),
                       (''image_path'', PStr (''/attendance_images/'' @ uuid_hex (uuid_file example_ambient) @ ''.jpg'')),
                       (''name'', PStr ''Unknown Person'')]),
          marked_world)"
proof -
  have "mark_attendance example_env example_ambient empty_world
          (PDict [(''image_base64'', PStr ''/9j/''), (''timestamp'', PStr ''2024-01-01T10:00:00'')])
        = Inr ((200, PDict [(''ok'', PBool True),
                 (''timestamp'', dict_get [(''image_base64'', PStr ''/9j/''), (''timestamp'', PStr ''2024-01-01T10:00:00'')] ''timestamp'' (PStr (utcnow example_ambient))),
                 (''image_path'', PStr (''/attendance_images/'' @ uuid_hex (uuid_file example_ambient) @ ''.jpg'')),
                 (''name'', PStr ''Unknown Person'')]),
               saved_world example_ambient empty_world [255, 216, 255] (Some ''2024-01-01T10:00:00''))"
    by (rule mark_attendance_accepted(2) [where s = "''/9j/''"])
       (simp_all add: has_face_def example_env_def is_live_bytes_def is_live_bytes_fallback_def
          empty_world_def example_timestamp sqlite_bind_text_def)
  moreover have "saved_world example_ambient empty_world [255, 216, 255] (Some ''2024-01-01T10:00:00'')
      = marked_world"
    by (simp add: saved_world_def empty_world_def marked_world_def example_ambient_def)
  ultimately show ?thesis
    by (simp add: example_request_def example_timestamp)
qed


lemma example_payload:
  "map_of [(''image_base64'', PStr ''/9j/''), (''timestamp'', PStr ''2024-01-01T10:00:00'')]
      ''image_base64'' = Some (PStr ''/9j/'')"
  "map_of [(''image_base64'', PStr ''/9j/''), (''timestamp'', PStr ''2024-01-01T10:00:00'')]
      ''timestamp'' = Some (PStr ''2024-01-01T10:00:00'')"
  "b64decode example_env ''/9j/'' = Inr [255, 216, 255]"
  "is_live_bytes example_env [255, 216, 255] = Inr True"
  by (simp_all add: example_env_def is_live_bytes_def is_live_bytes_fallback_def)

lemma internal_error_after_write:
  "mark_attendance example_env example_ambient empty_world unbindable_request
     = Inr (failure 500 ''Error binding parameter 2: type list is not supported'',
            empty_world\<lparr>files := (files empty_world)
               (path_join IMAGE_DIR (uuid_hex (uuid_file example_ambient) @ ''.jpg'')
                  \<mapsto> [255, 216, 255])\<rparr>)"
  by (simp add: unbindable_request_def mark_attendance_def dict_get_def mark_attendance_try_def
        b64decode_py_def has_face_def example_env_def is_live_bytes_def is_live_bytes_fallback_def
        already_marked_today_def empty_world_def write_file_def insert_attendance_def
        sqlite_bind_text_def Let_def)

subsection \<open>The duplicate gate\<close>



subsection \<open>Failures before step 5\<close>

text \<open>
  Claim C10. Whenever the handler answers 400, 403 or 409, the world it leaves is the world
  it found: no file written, no row inserted. The 500 answer is different: in the example
  deployment a submission whose timestamp is a list passes every check, has its image
  written, and fails at the insert, which leaves the new file and no row.
\<close>

theorem early_failures_leave_store:
  "(mark_attendance env amb w data = Inr ((code, body), w') \<and>
      (code = 400 \<or> code = 403 \<or> code = 409) \<longrightarrow> w' = w) \<and>
   (\<exists>w1. mark_attendance example_env example_ambient empty_world unbindable_request
              = Inr (failure 500 ''Error binding parameter 2: type list is not supported'', w1) \<and>
            attendance w1 = attendance empty_world \<and>
            files w1 (path_join IMAGE_DIR (uuid_hex (uuid_file example_ambient) @ ''.jpg''))
              = Some [255, 216, 255] \<and>
            files empty_world (path_join IMAGE_DIR (uuid_hex (uuid_file example_ambient) @ ''.jpg''))
              = None)"
proof (intro conjI impI)
  assume "mark_attendance env amb w data = Inr ((code, body), w') \<and>
      (code = 400 \<or> code = 403 \<or> code = 409)"
  then show "w' = w"
    by (auto dest: mark_attendance_early)
next
  show "\<exists>w1. mark_attendance example_env example_ambient empty_world unbindable_request
              = Inr (failure 500 ''Error binding parameter 2: type list is not supported'', w1) \<and>
            attendance w1 = attendance empty_world \<and>
            files w1 (path_join IMAGE_DIR (uuid_hex (uuid_file example_ambient) @ ''.jpg''))
              = Some [255, 216, 255] \<and>
            files empty_world (path_join IMAGE_DIR (uuid_hex (uuid_file example_ambient) @ ''.jpg''))
              = None"
    unfolding internal_error_after_write
    by (simp add: empty_world_def)
qed

theorem early_failures_leave_store_witness:
  "mark_attendance example_env later_ambient marked_world example_request
     = Inr ((409, PDict [(''ok'', PBool False),
                         (''error'', PStr ''Attendance already marked for today'')]),
            marked_world) \<and>
   mark_attendance example_env later_ambient marked_world (PDict []) 
     = Inr ((400, PDict [(''ok'', PBool False), (''error'', PStr ''No image received'')]),
            marked_world)"
proof -
  let ?d = "[(''image_base64'', PStr ''/9j/''), (''timestamp'', PStr ''2024-01-01T10:00:00'')]"
  have marked: "db_fault marked_world = None"
      "\<exists>r \<in> set (attendance marked_world).
          name_col r = ''Unknown Person'' \<and> date_col r = today_check later_ambient"
    by (simp_all add: marked_world_def later_ambient_def)
  have dup: "mark_attendance example_env later_ambient marked_world example_request
     = Inr ((409, PDict [(''ok'', PBool False),
                         (''error'', PStr ''Attendance already marked for today'')]),
            marked_world)"
    using mark_attendance_accepted(1) [OF example_payload(1) _ example_payload(3) example_faces(1)
        example_payload(4) marked]
    by (simp add: example_request_def failure_def)
  have missing: "mark_attendance example_env later_ambient marked_world (PDict [])
     = Inr ((400, PDict [(''ok'', PBool False), (''error'', PStr ''No image received'')]),
            marked_world)"
    by (simp add: mark_attendance_def dict_get_def failure_def)
  from early_failures_leave_store [of example_env later_ambient marked_world example_request
      409 "PDict [(''ok'', PBool False), (''error'', PStr ''Attendance already marked for today'')]"
      marked_world]
  show ?thesis
    using dup missing by simp
qed

subsection \<open>Undecodable images\<close>

text \<open>
  Claim C2, at the input where it fails. The body \<^verbatim>\<open>{"image_base64": "="}\<close> is not
  empty, so it passes line 70, and base64 decodes it to no bytes. \<^verbatim>\<open>cv2.imdecode\<close>
  raises on an empty buffer instead of returning None, \<^verbatim>\<open>has_face\<close> does not catch
  it, and the handler answers 500 with the decoder's message, not 403.
\<close>

theorem empty_buffer_internal_error:
  "b64decode example_env ''='' = Inr [] \<and>
   mark_attendance example_env example_ambient empty_world empty_request
     = Inr (failure 500 ''Assertion failed: !buf.empty() in function imdecode_'', empty_world)"
  by (simp add: empty_request_def mark_attendance_def dict_get_def mark_attendance_try_def
        b64decode_py_def has_face_def example_env_def)

text \<open>
  What \<^verbatim>\<open>has_face\<close> does handle: when the decoder returns None, or returns an image in
  which no face is located, the answer is 403 with "No face detected" and the world is
  unchanged.
\<close>

theorem no_face_forbidden:
  assumes "map_of d ''image_base64'' = Some (PStr s)" and "s \<noteq> []"
    and "b64decode env s = Inr image_bytes"
    and "imdecode env image_bytes = Inr None \<or>
         (imdecode env image_bytes = Inr (Some img) \<and> cvtColor env img = Inr rgb \<and>
          face_locations env rgb = Inr [])"
  shows "mark_attendance env amb w (PDict d) = Inr (failure 403 ''No face detected'', w)"
  using assms has_face_False [of env image_bytes img rgb]
  by (simp add: mark_attendance_str try_no_face [where bs = image_bytes])

theorem no_face_forbidden_witness:
  "b64decode example_env ''AAAA'' = Inr [0, 0, 0] \<and>
   imdecode example_env [0, 0, 0] = Inr None \<and>
   mark_attendance example_env example_ambient empty_world (PDict [(''image_base64'', PStr ''AAAA'')])
     = Inr (failure 403 ''No face detected'', empty_world)"
  using no_face_forbidden [of "[(''image_base64'', PStr ''AAAA'')]" "''AAAA''" example_env
      "[0, 0, 0]" 0 0 example_ambient empty_world]
  by (simp add: example_env_def)

text \<open>
  And what it does not: an exception of the decoder, for any payload and in any
  environment, leaves \<^verbatim>\<open>has_face\<close>, is caught by the handler and answered with 500 and
  the exception's message.
\<close>

theorem decoder_raises_internal_error:
  assumes "map_of d ''image_base64'' = Some (PStr s)" and "s \<noteq> []"
    and "b64decode env s = Inr image_bytes"
    and "imdecode env image_bytes = Inl e"
  shows "mark_attendance env amb w (PDict d) = Inr (failure 500 e, w)"
  using assms
  by (simp add: mark_attendance_str try_face_raises [where bs = image_bytes] has_face_def)

theorem decoder_raises_internal_error_witness:
  "b64decode example_env ''='' = Inr [] \<and>
   imdecode example_env [] = Inl ''Assertion failed: !buf.empty() in function imdecode_'' \<and>
   mark_attendance example_env later_ambient marked_world empty_request
     = Inr (failure 500 ''Assertion failed: !buf.empty() in function imdecode_'', marked_world)"
  using decoder_raises_internal_error [of "[(''image_base64'', PStr ''='')]" "''=''" example_env
      "[]" "''Assertion failed: !buf.empty() in function imdecode_''" later_ambient marked_world]
  by (simp add: example_env_def empty_request_def)

subsection \<open>What a success stores and returns\<close>

lemma length_hex_digits: "length (hex_digits k n) = k"
  by (induction k arbitrary: n) auto

lemma hex_digit_range: "hex_digit d \<in> set ''0123456789abcdef''"
proof -
  have "d mod 16 < length ''0123456789abcdef''" by simp
  then show ?thesis
    unfolding hex_digit_def by (rule nth_mem)
qed

lemma set_hex_digits: "set (hex_digits k n) \<subseteq> set ''0123456789abcdef''"
  by (induction k arbitrary: n) (use hex_digit_range in auto)

lemma uuid_hex_shape:
  "length (uuid_hex u) = 32" "set (uuid_hex u) \<subseteq> set ''0123456789abcdef''"
  unfolding uuid_hex_def by (rule length_hex_digits, rule set_hex_digits)

lemma mark_attendance_world:
  assumes "mark_attendance env amb w data = Inr ((code, body), w')"
  shows "code = 200 \<or>
         (attendance w' = attendance w \<and> (\<forall>p. files w p \<noteq> None \<longrightarrow> files w' p \<noteq> None))"
  using assms
  unfolding mark_attendance_def mark_attendance_try_def failure_def write_file_def insert_attendance_def
  by (auto simp: Let_def split: pyval.splits sum.splits bool.splits option.splits if_splits prod.splits)

lemma mark_attendance_saved:
  assumes "mark_attendance env amb w data = Inr ((200, body), w')"
  shows "\<exists>d s bs ts. data = PDict d \<and> map_of d ''image_base64'' = Some (PStr s) \<and>
           b64decode env s = Inr bs \<and> fs_fault w = None \<and> db_fault w = None \<and>
           sqlite_bind_text 2 (dict_get d ''timestamp'' (PStr (utcnow amb))) = Inr ts \<and>
           uuid_hex (uuid_row amb) \<notin> set (map id_col (attendance w)) \<and>
           body = PDict [(''ok'', PBool True),
                         (''timestamp'', dict_get d ''timestamp'' (PStr (utcnow amb))),
                         (''image_path'', PStr (''/attendance_images/'' @ uuid_hex (uuid_file amb) @ ''.jpg'')),
                         (''name'', PStr ''Unknown Person'')] \<and>
           w' = saved_world amb w bs ts"
proof -
  from mark_attendance_200 [OF assms] obtain d s
    where d: "data = PDict d" "map_of d ''image_base64'' = Some (PStr s)"
      and run: "mark_attendance_try env amb w (PStr s) (dict_get d ''timestamp'' (PStr (utcnow amb)))
                  = (Inr (200, body), w')"
    by blast
  from try_200 [OF run] d show ?thesis
    by auto
qed

lemma hex_digits_numeral:
  "hex_digits (numeral k) n = hex_digits (pred_numeral k) (n div 16) @ [hex_digit n]"
proof -
  have "hex_digits (Suc (pred_numeral k)) n = hex_digits (pred_numeral k) (n div 16) @ [hex_digit n]"
    by (rule hex_digits.simps)
  then show ?thesis
    by (simp only: numeral_eq_Suc)
qed

lemma example_hex:
  "uuid_hex (uuid_file example_ambient) = ''0123456789abcdef0123456789abcdef''"
  "uuid_hex (uuid_row example_ambient) = ''fedcba9876543210fedcba9876543210''"
  "uuid_hex (uuid_file next_day_ambient) = ''11111111111111111111111111111111''"
  "uuid_hex (uuid_row next_day_ambient) = ''22222222222222222222222222222222''"
  by (simp_all add: example_ambient_def next_day_ambient_def uuid_hex_def hex_digits_numeral
        hex_digit_def)

lemma example_second_day:
  "mark_attendance example_env next_day_ambient marked_world example_request =
     Inr ((200, PDict [(''ok'', PBool True),
                       (''timestamp'', PStr ''2024-01-01T10:00:00''),
                       (''image_path'', PStr ''/attendance_images/11111111111111111111111111111111.jpg''),
                       (''name'', PStr ''Unknown Person'')]),
          saved_world next_day_ambient marked_world [255, 216, 255] (Some ''2024-01-01T10:00:00''))"
proof -
  let ?d = "[(''image_base64'', PStr ''/9j/''), (''timestamp'', PStr ''2024-01-01T10:00:00'')]"
  have "mark_attendance example_env next_day_ambient marked_world (PDict ?d)
        = Inr ((200, PDict [(''ok'', PBool True),
                 (''timestamp'', dict_get ?d ''timestamp'' (PStr (utcnow next_day_ambient))),
                 (''image_path'', PStr (''/attendance_images/'' @ uuid_hex (uuid_file next_day_ambient) @ ''.jpg'')),
                 (''name'', PStr ''Unknown Person'')]),
               saved_world next_day_ambient marked_world [255, 216, 255] (Some ''2024-01-01T10:00:00''))"
  proof (rule mark_attendance_accepted(2) [OF example_payload(1) _ example_payload(3)
        example_faces(1) example_payload(4)])
    show "''/9j/'' \<noteq> []" by simp
    show "db_fault marked_world = None" "fs_fault marked_world = None"
      by (simp_all add: marked_world_def)
    show "\<not> (\<exists>r \<in> set (attendance marked_world).
               name_col r = ''Unknown Person'' \<and> date_col r = today_check next_day_ambient)"
      by (simp add: marked_world_def next_day_ambient_def)
    show "sqlite_bind_text 2 (dict_get ?d ''timestamp'' (PStr (utcnow next_day_ambient)))
            = Inr (Some ''2024-01-01T10:00:00'')"
      by (simp add: example_timestamp sqlite_bind_text_def)
    show "uuid_hex (uuid_row next_day_ambient) \<notin> set (map id_col (attendance marked_world))"
      by (simp add: marked_world_def example_hex)
  qed
  then show ?thesis
    by (simp add: example_request_def example_timestamp example_hex)
qed

text \<open>
  Claim C6. Whenever a submission adds a row to the table, the row is added by the INSERT
  run on a world in which the image file named by the row's \<^verbatim>\<open>image_path\<close> has
  already been written with the decoded bytes, and the file is still there afterwards; a
  submission that adds no row leaves the table as it was. So if every row's image file
  exists before a submission, every row's image file exists after it.
\<close>

theorem file_written_before_insert:
  assumes "mark_attendance env amb w data = Inr (resp, w')"
  shows "(attendance w' \<noteq> attendance w \<longrightarrow>
           (\<exists>image_bytes timestamp w1 r.
              write_file w (path_join IMAGE_DIR (uuid_hex (uuid_file amb) @ ''.jpg'')) image_bytes
                = Inr w1 \<and>
              files w1 (path_join IMAGE_DIR (uuid_hex (uuid_file amb) @ ''.jpg'')) = Some image_bytes \<and>
              insert_attendance w1 (uuid_hex (uuid_row amb)) ''Unknown Person'' timestamp
                (today_handler amb) (path_join IMAGE_DIR (uuid_hex (uuid_file amb) @ ''.jpg''))
                = Inr w' \<and>
              attendance w' = attendance w @ [r] \<and>
              image_path_col r = path_join IMAGE_DIR (uuid_hex (uuid_file amb) @ ''.jpg'') \<and>
              files w' (image_path_col r) = Some image_bytes)) \<and>
         ((\<forall>r \<in> set (attendance w). files w (image_path_col r) \<noteq> None) \<longrightarrow>
          (\<forall>r \<in> set (attendance w'). files w' (image_path_col r) \<noteq> None))"
proof (cases resp)
  case (Pair code body)
  show ?thesis
  proof (cases "code = 200")
    case True
    from mark_attendance_saved [OF assms [unfolded Pair True]] obtain d bs ts
      where ok: "fs_fault w = None" "db_fault w = None"
          "sqlite_bind_text 2 (dict_get d ''timestamp'' (PStr (utcnow amb))) = Inr ts"
          "uuid_hex (uuid_row amb) \<notin> set (map id_col (attendance w))"
        and w': "w' = saved_world amb w bs ts"
      by blast
    let ?path = "path_join IMAGE_DIR (uuid_hex (uuid_file amb) @ ''.jpg'')"
    let ?w1 = "w\<lparr>files := (files w)(?path \<mapsto> bs)\<rparr>"
    have "write_file w ?path bs = Inr ?w1"
      using ok by (simp add: write_file_def)
    moreover have "files ?w1 ?path = Some bs"
      by simp
    moreover have "insert_attendance ?w1 (uuid_hex (uuid_row amb)) ''Unknown Person''
                     (dict_get d ''timestamp'' (PStr (utcnow amb))) (today_handler amb) ?path = Inr w'"
      using ok w' by (simp add: insert_attendance_def saved_world_def)
    moreover have "attendance w' = attendance w @
        [\<lparr>id_col = uuid_hex (uuid_row amb), name_col = ''Unknown Person'', timestamp_col = ts,
          date_col = today_handler amb, image_path_col = ?path\<rparr>]"
      using w' by (simp add: saved_world_def)
    moreover have "files w' ?path = Some bs"
      using w' by (simp add: saved_world_def)
    moreover have "(\<forall>r \<in> set (attendance w). files w (image_path_col r) \<noteq> None) \<longrightarrow>
          (\<forall>r \<in> set (attendance w'). files w' (image_path_col r) \<noteq> None)"
      using w' by (auto simp add: saved_world_def)
    ultimately show ?thesis
      by (intro conjI impI exI [of _ bs] exI [of _ "dict_get d ''timestamp'' (PStr (utcnow amb))"]
            exI [of _ ?w1]
            exI [of _ "\<lparr>id_col = uuid_hex (uuid_row amb), name_col = ''Unknown Person'',
                       timestamp_col = ts, date_col = today_handler amb, image_path_col = ?path\<rparr>"])
         simp_all
  next
    case False
    with mark_attendance_world [OF assms [unfolded Pair]] show ?thesis
      by auto
  qed
qed

theorem file_written_before_insert_witness:
  "\<exists>resp w'.
     mark_attendance example_env next_day_ambient marked_world example_request = Inr (resp, w') \<and>
     attendance w' \<noteq> attendance marked_world \<and>
     attendance marked_world \<noteq> [] \<and>
     list_all (\<lambda>r. files marked_world (image_path_col r) \<noteq> None) (attendance marked_world) \<and>
     (\<exists>image_bytes timestamp w1 r.
        write_file marked_world
          (path_join IMAGE_DIR (uuid_hex (uuid_file next_day_ambient) @ ''.jpg'')) image_bytes
          = Inr w1 \<and>
        files w1 (path_join IMAGE_DIR (uuid_hex (uuid_file next_day_ambient) @ ''.jpg''))
          = Some image_bytes \<and>
        insert_attendance w1 (uuid_hex (uuid_row next_day_ambient)) ''Unknown Person'' timestamp
          (today_handler next_day_ambient)
          (path_join IMAGE_DIR (uuid_hex (uuid_file next_day_ambient) @ ''.jpg'')) = Inr w' \<and>
        attendance w' = attendance marked_world @ [r] \<and>
        image_path_col r = path_join IMAGE_DIR (uuid_hex (uuid_file next_day_ambient) @ ''.jpg'') \<and>
        files w' (image_path_col r) = Some image_bytes) \<and>
     list_all (\<lambda>r. files w' (image_path_col r) \<noteq> None) (attendance w')"
proof -
  let ?w' = "saved_world next_day_ambient marked_world [255, 216, 255] (Some ''2024-01-01T10:00:00'')"
  have changed: "attendance ?w' \<noteq> attendance marked_world"
    by (simp add: saved_world_def)
  have before: "attendance marked_world \<noteq> []"
      "\<forall>r \<in> set (attendance marked_world). files marked_world (image_path_col r) \<noteq> None"
    by (simp_all add: marked_world_def)
  note both = file_written_before_insert [OF example_second_day]
  note written = both [THEN conjunct1, THEN mp, OF changed]
  note kept = both [THEN conjunct2, THEN mp, OF before(2)]
  show ?thesis
    unfolding list_all_iff
    by (rule exI, rule exI, intro conjI, rule example_second_day, rule changed, rule before(1),
        rule before(2), rule written, rule kept)
qed



subsection \<open>The recent list\<close>

lemma order_by_timestamp_desc_sorted:
  "sorted_wrt (\<lambda>a b. timestamp_col b \<le> timestamp_col a) (order_by_timestamp_desc rows)"
proof -
  have "sorted (map timestamp_col (sort_key timestamp_col rows))"
    by (rule sorted_sort_key)
  then have "sorted_wrt (\<lambda>a b. timestamp_col a \<le> timestamp_col b) (sort_key timestamp_col rows)"
    by (simp add: sorted_wrt_map)
  then show ?thesis
    by (simp add: order_by_timestamp_desc_def sorted_wrt_rev)
qed

lemma order_by_timestamp_desc_perm:
  "set (order_by_timestamp_desc rows) = set rows"
  "length (order_by_timestamp_desc rows) = length rows"
  by (simp_all add: order_by_timestamp_desc_def)

lemma select_recent_ok:
  assumes "db_fault w = None"
  shows "select_recent w =
           Inr (map (\<lambda>r. (name_col r, timestamp_col r, image_path_col r))
                  (take 10 (order_by_timestamp_desc (attendance w))))"
  using assms by (simp add: select_recent_def)

text \<open>
  Claim C4. \<^verbatim>\<open>get_recent_attendance\<close> leaves the world as it found it. When the database
  answers, the response is 200 with the first ten rows of the table reordered so that no
  timestamp is followed by a greater one (NULL least, texts byte by byte): at most ten
  entries, non-increasing by timestamp, each a dict of exactly \<^verbatim>\<open>person_text\<close>,
  \<^verbatim>\<open>timestamp\<close> and \<^verbatim>\<open>image_path\<close>. When the database raises, the response is 500
  with the message and no entries.
\<close>

theorem recent_attendance:
  "snd (get_recent_attendance w) = w \<and>
   (case db_fault w of
      Some e \<Rightarrow> fst (get_recent_attendance w) = (500, PDict [(''error'', PStr e)])
    | None \<Rightarrow>
        (\<exists>sorted_rows.
           set sorted_rows = set (attendance w) \<and>
           length sorted_rows = length (attendance w) \<and>
           sorted_wrt (\<lambda>a b. timestamp_col b \<le> timestamp_col a) sorted_rows \<and>
           fst (get_recent_attendance w)
             = (200, PList (map (\<lambda>r. PDict [(''person_text'', PStr (name_col r)),
                                              (''timestamp'', py_of_text (timestamp_col r)),
                                              (''image_path'', PStr (''/'' @ image_path_col r))])
                              (take 10 sorted_rows))) \<and>
           length (take 10 sorted_rows) \<le> 10 \<and>
           sorted_wrt (\<lambda>a b. timestamp_col b \<le> timestamp_col a) (take 10 sorted_rows)))"
proof (cases "db_fault w")
  case None
  let ?s = "order_by_timestamp_desc (attendance w)"
  have unchanged: "snd (get_recent_attendance w) = w"
    by (simp add: get_recent_attendance_def split: sum.splits)
  have answer: "fst (get_recent_attendance w)
          = (200, PList (map (\<lambda>r. PDict [(''person_text'', PStr (name_col r)),
                                              (''timestamp'', py_of_text (timestamp_col r)),
                                              (''image_path'', PStr (''/'' @ image_path_col r))])
                           (take 10 ?s)))"
    by (simp add: get_recent_attendance_def select_recent_ok [OF None] recent_entry_def comp_def)
  have cut: "sorted_wrt (\<lambda>a b. timestamp_col b \<le> timestamp_col a) (take 10 ?s)"
    using order_by_timestamp_desc_sorted by (rule sorted_wrt_take)
  have short: "length (take 10 ?s) \<le> 10"
    by simp
  show ?thesis
    unfolding None option.case
    by (intro conjI exI [of _ ?s], rule unchanged, rule order_by_timestamp_desc_perm,
        rule order_by_timestamp_desc_perm, rule order_by_timestamp_desc_sorted, rule answer,
        rule short, rule cut)
next
  case (Some e)
  then show ?thesis
    by (simp add: get_recent_attendance_def select_recent_def)
qed

text \<open>On the example table: newest first, the NULL timestamp last.\<close>

lemma week_recent:
  "fst (get_recent_attendance week_world) =
     (200, PList [PDict [(''person_text'', PStr ''Unknown Person''),
                         (''timestamp'', PStr ''2024-01-04T08:30:00''),
                         (''image_path'', PStr ''/attendance_images/a3.jpg'')],
                  PDict [(''person_text'', PStr ''Unknown Person''),
                         (''timestamp'', PStr ''2024-01-02T09:00:00''),
                         (''image_path'', PStr ''/attendance_images/a1.jpg'')],
                  PDict [(''person_text'', PStr ''Unknown Person''),
                         (''timestamp'', PNone),
                         (''image_path'', PStr ''/attendance_images/a2.jpg'')]])"
  by (simp add: get_recent_attendance_def select_recent_def order_by_timestamp_desc_def
        week_world_def recent_entry_def py_of_text_def less_eq_char_def)

subsection \<open>Serving stored images\<close>

lemma split_on_plain: "c \<notin> set p \<Longrightarrow> split_on c p = [p]"
  by (induction p) auto

lemma split_on_append: "c \<notin> set p \<Longrightarrow> split_on c (p @ c # rest) = p # split_on c rest"
  by (induction p) auto

lemma split_on_parts: "p \<in> set (split_on c xs) \<Longrightarrow> c \<notin> set p"
  by (induction xs arbitrary: p) (auto split: if_splits list.splits)

lemma split_on_join:
  "ps \<noteq> [] \<Longrightarrow> (\<And>p. p \<in> set ps \<Longrightarrow> c \<notin> set p) \<Longrightarrow> split_on c (join_with c ps) = ps"
proof (induction c ps rule: join_with.induct)
  case (1 c)
  then show ?case by simp
next
  case (2 c p)
  then show ?case by (simp add: split_on_plain)
next
  case (3 c p q ps)
  then show ?case by (simp add: split_on_append)
qed

lemma climbing_Nil: "climbing []"
  unfolding climbing_def by (rule exI [of _ 0]) simp

lemma climbing_name:
  assumes "climbing new" and "part \<noteq> []" and "part \<noteq> ''.''" and "part \<noteq> ''..''"
  shows "climbing (new @ [part])"
proof -
  from assms(1) obtain k names
    where "new = replicate k ''..'' @ names"
      and "\<forall>n \<in> set names. n \<noteq> [] \<and> n \<noteq> ''.'' \<and> n \<noteq> ''..''"
    unfolding climbing_def by blast
  with assms(2-4) show ?thesis
    unfolding climbing_def
    by (intro exI [of _ k] exI [of _ "names @ [part]"]) simp
qed

lemma climbing_up:
  assumes "climbing new" and "new = [] \<or> last new = ''..''"
  shows "climbing (new @ [''..''])"
proof -
  from assms(1) obtain k names
    where new: "new = replicate k ''..'' @ names"
      and names: "\<forall>n \<in> set names. n \<noteq> [] \<and> n \<noteq> ''.'' \<and> n \<noteq> ''..''"
    unfolding climbing_def by blast
  have "names = []"
  proof (rule ccontr)
    assume "names \<noteq> []"
    then have "last new = last names" and "last names \<in> set names"
      using new by simp_all
    with names assms(2) new \<open>names \<noteq> []\<close> show False
      by auto
  qed
  then have "new @ [''..''] = replicate (Suc k) ''..'' @ []"
    using new by (simp add: replicate_append_same)
  then show ?thesis
    unfolding climbing_def by (intro exI [of _ "Suc k"] exI [of _ "[]"]) simp
qed

lemma climbing_pop:
  assumes "climbing new" and "new \<noteq> []" and "last new \<noteq> ''..''"
  shows "climbing (butlast new)"
proof -
  from assms(1) obtain k names
    where new: "new = replicate k ''..'' @ names"
      and names: "\<forall>n \<in> set names. n \<noteq> [] \<and> n \<noteq> ''.'' \<and> n \<noteq> ''..''"
    unfolding climbing_def by blast
  have "names \<noteq> []"
  proof
    assume "names = []"
    with new assms(2) have "k \<noteq> 0" and "new = replicate k ''..''"
      by auto
    then have "last new = ''..''"
      by (simp add: last_replicate)
    with assms(3) show False
      by simp
  qed
  then have "butlast new = replicate k ''..'' @ butlast names"
    using new by (simp add: butlast_append)
  moreover have "\<forall>n \<in> set (butlast names). n \<noteq> [] \<and> n \<noteq> ''.'' \<and> n \<noteq> ''..''"
    using names by (auto dest: in_set_butlastD)
  ultimately show ?thesis
    unfolding climbing_def by blast
qed

lemma normpath_loop_climbing:
  "climbing new \<Longrightarrow> climbing (normpath_loop False comps new)"
proof (induction comps arbitrary: new)
  case Nil
  then show ?case by simp
next
  case (Cons part comps)
  show ?case
  proof (cases "part = [] \<or> part = ''.''")
    case True
    then show ?thesis using Cons by auto
  next
    case skip: False
    show ?thesis
    proof (cases "part = ''..''")
      case False
      with skip Cons.prems have "climbing (new @ [part])"
        by (intro climbing_name) auto
      with False skip show ?thesis
        using Cons.IH [of "new @ [part]"] by simp
    next
      case up: True
      show ?thesis
      proof (cases "new = [] \<or> last new = ''..''")
        case True
        with Cons.prems have "climbing (new @ [''..''])"
          by (rule climbing_up)
        with True up show ?thesis
          using Cons.IH [of "new @ [''..'']"] by auto
      next
        case False
        with Cons.prems have "climbing (butlast new)"
          by (intro climbing_pop) auto
        with False up show ?thesis
          using Cons.IH [of "butlast new"] by auto
      qed
    qed
  qed
qed

lemma normpath_loop_parts:
  "p \<in> set (normpath_loop i comps new) \<Longrightarrow> p \<in> set comps \<or> p \<in> set new"
proof (induction comps arbitrary: new)
  case Nil
  then show ?case by simp
next
  case (Cons part comps)
  from Cons.prems
  consider "p \<in> set (normpath_loop i comps new)"
    | "p \<in> set (normpath_loop i comps (new @ [part]))"
    | "p \<in> set (normpath_loop i comps (butlast new))"
    by (auto split: if_splits)
  then show ?case
    by cases (auto dest: Cons.IH in_set_butlastD)
qed

lemma join_with_climb:
  "join_with CHR ''/'' (''..'' # rest) = ''..'' \<or>
   starts_with (join_with CHR ''/'' (''..'' # rest)) ''../''"
  by (cases rest) (simp_all add: starts_with_def)

lemma join_with_empty:
  "(\<And>p. p \<in> set ps \<Longrightarrow> p \<noteq> []) \<Longrightarrow> join_with c ps = [] \<longleftrightarrow> ps = []"
  by (induction c ps rule: join_with.induct) auto

lemma normpath_relative:
  assumes "path \<noteq> []" and "\<not> starts_with path ''/''"
  shows "normpath path = ''..'' \<or> starts_with (normpath path) ''../'' \<or>
         ''..'' \<notin> set (split_on CHR ''/'' (normpath path))"
proof -
  let ?res = "normpath_loop False (split_on CHR ''/'' path) []"
  have norm: "normpath path =
      (if join_with CHR ''/'' ?res = [] then ''.'' else join_with CHR ''/'' ?res)"
    using assms by (simp add: normpath_def Let_def)
  have "climbing ?res"
    using climbing_Nil by (rule normpath_loop_climbing)
  then obtain k names
    where res: "?res = replicate k ''..'' @ names"
      and names: "\<forall>n \<in> set names. n \<noteq> [] \<and> n \<noteq> ''.'' \<and> n \<noteq> ''..''"
    unfolding climbing_def by blast
  have plain: "CHR ''/'' \<notin> set p" if "p \<in> set ?res" for p
    using normpath_loop_parts [OF that] by (auto dest: split_on_parts)
  show ?thesis
  proof (cases k)
    case (Suc j)
    then have "?res = ''..'' # (replicate j ''..'' @ names)"
      using res by simp
    then have "join_with CHR ''/'' ?res = ''..'' \<or> starts_with (join_with CHR ''/'' ?res) ''../''"
      using join_with_climb [of "replicate j ''..'' @ names"] by simp
    then show ?thesis
      unfolding norm by (auto simp: starts_with_def)
  next
    case 0
    then have res': "?res = names"
      using res by simp
    show ?thesis
    proof (cases "names = []")
      case True
      then show ?thesis
        unfolding norm res' by simp
    next
      case False
      then have "join_with CHR ''/'' names \<noteq> []"
        using names join_with_empty [of names "CHR ''/''"] by auto
      moreover have "split_on CHR ''/'' (join_with CHR ''/'' names) = names"
        using False plain res' by (intro split_on_join) auto
      ultimately show ?thesis
        unfolding norm res' using names by auto
    qed
  qed
qed

lemma normpath_absolute:
  assumes "starts_with path ''/''"
  shows "starts_with (normpath path) ''/''"
proof -
  from assms have "path \<noteq> []"
    by (auto simp: starts_with_def)
  with assms show ?thesis
    by (auto simp: normpath_def Let_def starts_with_def)
qed

lemma safe_join_inside:
  assumes "safe_join directory filename = Some path"
    and "directory \<noteq> []" and "last directory \<noteq> CHR ''/''"
  shows "\<exists>rest. path = directory @ ''/'' @ rest \<and> ''..'' \<notin> set (split_on CHR ''/'' rest)"
proof (cases "filename = []")
  case True
  with assms have "path = directory @ ''/'' @ []"
    by (simp add: safe_join_def path_join_def starts_with_def)
  then show ?thesis
    by (intro exI [of _ "[]"]) simp
next
  case False
  let ?n = "normpath filename"
  from assms(1,2) False
  have ok: "\<not> starts_with ?n ''/''" "?n \<noteq> ''..''" "\<not> starts_with ?n ''../''"
    and path: "path = path_join directory ?n"
    by (auto simp: safe_join_def Let_def split: if_splits)
  from ok(1) have rel: "\<not> starts_with filename ''/''"
    using normpath_absolute by blast
  from ok(1) have "?n = [] \<or> hd ?n \<noteq> CHR ''/''"
    by (cases ?n) (auto simp: starts_with_def)
  with path assms(2,3) have "path = directory @ ''/'' @ ?n"
    by (auto simp: path_join_def)
  moreover have "''..'' \<notin> set (split_on CHR ''/'' ?n)"
    using normpath_relative [OF False rel] ok by blast
  ultimately show ?thesis
    by blast
qed

lemma normpath_plain:
  assumes "CHR ''/'' \<notin> set f" and "f \<noteq> []" and "f \<noteq> ''.''" and "f \<noteq> ''..''"
  shows "normpath f = f"
proof -
  from assms(1,2) have "\<not> starts_with f ''/''"
    by (cases f) (auto simp: starts_with_def)
  with assms show ?thesis
    by (simp add: normpath_def Let_def split_on_plain)
qed

lemma safe_join_plain:
  assumes "CHR ''/'' \<notin> set f" and "f \<noteq> []" and "hd f \<noteq> CHR ''.''"
  shows "safe_join IMAGE_DIR f = Some (''attendance_images/'' @ f)"
proof -
  from assms have "f \<noteq> ''.''" "f \<noteq> ''..''"
    by auto
  with assms have "normpath f = f"
    by (intro normpath_plain)
  moreover from assms have "\<not> starts_with f ''/''" "\<not> starts_with f ''../''" "hd f \<noteq> CHR ''/''"
    by (cases f; auto simp: starts_with_def)+
  ultimately show ?thesis
    using assms \<open>f \<noteq> ''..''\<close> by (simp add: safe_join_def IMAGE_DIR_def path_join_def)
qed

lemma image_filename:
  "CHR ''/'' \<notin> set (uuid_hex u @ ''.jpg'')"
  "uuid_hex u @ ''.jpg'' \<noteq> []"
  "hd (uuid_hex u @ ''.jpg'') \<noteq> CHR ''.''"
  "hd (uuid_hex u @ ''.jpg'') \<noteq> CHR ''/''"
proof -
  have digits: "set (uuid_hex u) \<subseteq> set ''0123456789abcdef''" and "uuid_hex u \<noteq> []"
    using uuid_hex_shape [of u] by auto
  then have "hd (uuid_hex u) \<in> set ''0123456789abcdef''"
    by (meson hd_in_set subsetD)
  with \<open>uuid_hex u \<noteq> []\<close> show "hd (uuid_hex u @ ''.jpg'') \<noteq> CHR ''.''"
      "hd (uuid_hex u @ ''.jpg'') \<noteq> CHR ''/''"
    by auto
  from digits show "CHR ''/'' \<notin> set (uuid_hex u @ ''.jpg'')"
    by auto
  show "uuid_hex u @ ''.jpg'' \<noteq> []"
    by simp
qed

lemma get_attendance_images_route:
  "f \<noteq> [] \<Longrightarrow> hd f \<noteq> CHR ''/'' \<Longrightarrow>
   get_attendance_images w (''/attendance_images/'' @ f) = serve_image w f"
  by (simp add: get_attendance_images_def Let_def starts_with_def)

lemma traversal_refused:
  "safe_join IMAGE_DIR ''../attendance.db'' = None"
  "safe_join IMAGE_DIR ''x/../../attendance.db'' = None"
  "safe_join IMAGE_DIR ''/etc/passwd'' = None"
  by (simp_all add: safe_join_def normpath_def starts_with_def Let_def)

text \<open>
  Claim C5. Whatever the filename, \<^verbatim>\<open>serve_image\<close> answers NotFound or returns the
  content of a file whose path is \<^verbatim>\<open>attendance_images/\<close> followed by a path with no
  \<^verbatim>\<open>..\<close> component, so it never reads outside the image directory; and it answers
  NotFound whenever the filename resolves to no existing file there. Filenames that climb
  out, such as \<^verbatim>\<open>../attendance.db\<close>, are refused even when the file they point at
  exists.
\<close>

theorem serve_image_confined:
  "(serve_image w filename = NotFound \<or>
    (\<exists>content rest.
       serve_image w filename = FileBody content \<and>
       safe_join IMAGE_DIR filename = Some (''attendance_images/'' @ rest) \<and>
       files w (''attendance_images/'' @ rest) = Some content \<and>
       ''..'' \<notin> set (split_on CHR ''/'' rest))) \<and>
   ((\<forall>path. safe_join IMAGE_DIR filename = Some path \<longrightarrow> files w path = None) \<longrightarrow>
    serve_image w filename = NotFound)"
proof (intro conjI impI)
  show "serve_image w filename = NotFound \<or>
    (\<exists>content rest.
       serve_image w filename = FileBody content \<and>
       safe_join IMAGE_DIR filename = Some (''attendance_images/'' @ rest) \<and>
       files w (''attendance_images/'' @ rest) = Some content \<and>
       ''..'' \<notin> set (split_on CHR ''/'' rest))"
  proof (cases "serve_image w filename")
    case NotFound
    then show ?thesis by simp
  next
    case (FileBody content)
    then obtain path where path: "safe_join IMAGE_DIR filename = Some path"
        and content: "files w path = Some content"
      by (auto simp: serve_image_def send_from_directory_def split: option.splits)
    from safe_join_inside [OF path] obtain rest
      where "path = IMAGE_DIR @ ''/'' @ rest" and "''..'' \<notin> set (split_on CHR ''/'' rest)"
      by (auto simp: IMAGE_DIR_def)
    with path content FileBody show ?thesis
      by (auto simp: IMAGE_DIR_def)
  qed
next
  assume "\<forall>path. safe_join IMAGE_DIR filename = Some path \<longrightarrow> files w path = None"
  then show "serve_image w filename = NotFound"
    by (auto simp: serve_image_def send_from_directory_def split: option.splits)
qed

theorem serve_image_confined_witness:
  "files leaky_world ''attendance.db'' = Some [83, 81, 76] \<and>
   safe_join IMAGE_DIR ''../attendance.db'' = None \<and>
   serve_image leaky_world ''../attendance.db'' = NotFound \<and>
   serve_image leaky_world ''x/../../attendance.db'' = NotFound"
  using serve_image_confined [of leaky_world "''../attendance.db''"]
    serve_image_confined [of leaky_world "''x/../../attendance.db''"]
  by (simp add: traversal_refused leaky_world_def)

text \<open>
  Claim C7. After a 200 answer, a GET of the \<^verbatim>\<open>image_path\<close> in the response body, run
  on the world the submission left, returns exactly the bytes the submitted
  \<^verbatim>\<open>image_base64\<close> decodes to.
\<close>

theorem image_round_trip:
  assumes "mark_attendance env amb w data = Inr ((200, body), w')"
  shows "\<exists>d s image_bytes items url.
           data = PDict d \<and> map_of d ''image_base64'' = Some (PStr s) \<and>
           b64decode env s = Inr image_bytes \<and>
           body = PDict items \<and> map_of items ''image_path'' = Some (PStr url) \<and>
           get_attendance_images w' url = FileBody image_bytes"
proof -
  let ?f = "uuid_hex (uuid_file amb) @ ''.jpg''"
  let ?items = "\<lambda>d. [(''ok'', PBool True),
                      (''timestamp'', dict_get d ''timestamp'' (PStr (utcnow amb))),
                      (''image_path'', PStr (''/attendance_images/'' @ ?f)),
                      (''name'', PStr ''Unknown Person'')]"
  from mark_attendance_saved [OF assms] obtain d s bs ts
    where d: "data = PDict d" "map_of d ''image_base64'' = Some (PStr s)" "b64decode env s = Inr bs"
      and body: "body = PDict (?items d)"
      and w': "w' = saved_world amb w bs ts"
    by blast
  have "files w' (''attendance_images/'' @ ?f) = Some bs"
    using w' image_filename(4) [of "uuid_file amb"]
    by (simp add: saved_world_def IMAGE_DIR_def path_join_def)
  then have "serve_image w' ?f = FileBody bs"
    using safe_join_plain [OF image_filename(1-3), of "uuid_file amb"]
    by (simp add: serve_image_def send_from_directory_def)
  then have "get_attendance_images w' (''/attendance_images/'' @ ?f) = FileBody bs"
    using get_attendance_images_route [OF image_filename(2,4), of w' "uuid_file amb"] by simp
  moreover have "map_of (?items d) ''image_path'' = Some (PStr (''/attendance_images/'' @ ?f))"
    by simp
  ultimately show ?thesis
    using d body by blast
qed

theorem image_round_trip_witness:
  "\<exists>body w'.
     mark_attendance example_env example_ambient empty_world example_request
       = Inr ((200, body), w') \<and>
     b64decode example_env ''/9j/'' = Inr [255, 216, 255] \<and>
     get_attendance_images w' ''/attendance_images/0123456789abcdef0123456789abcdef.jpg''
       = FileBody [255, 216, 255]"
proof -
  from image_round_trip [OF example_first] obtain items url image_bytes
    where "b64decode example_env ''/9j/'' = Inr image_bytes"
      and "PDict [(''ok'', PBool True), (''timestamp'', PStr ''2024-01-01T10:00:00''),
             (''image_path'', PStr (''/attendance_images/'' @ uuid_hex (uuid_file example_ambient) @ ''.jpg'')),
             (''name'', PStr ''Unknown Person'')] = PDict items"
      and "map_of items ''image_path'' = Some (PStr url)"
      and "get_attendance_images marked_world url = FileBody image_bytes"
    by (auto simp: example_request_def)
  then have "get_attendance_images marked_world
               ''/attendance_images/0123456789abcdef0123456789abcdef.jpg'' = FileBody [255, 216, 255]"
    using example_payload(3) by (auto simp: example_hex)
  with example_first example_payload(3) show ?thesis
    by (auto simp: example_hex)
qed

end
